theory Spec2Isabelle
  imports Complex_Main
begin

section \<open>Numbers and exceptions\<close>

text \<open>
  The detector of \<^verbatim>\<open>helper.py\<close> works on Python numbers: ints of any size and
  floats, whose arithmetic rounds. Two readings of these numbers are used. The
  scenarios run the detector in exact arithmetic on \<^typ>\<open>real\<close>, at values that floats
  represent exactly and whose intermediate results they represent exactly too, where
  Python computes the same. Statements about every value are made on the detector
  over an arbitrary type of numbers, with the numeric operations as parameters, so
  that they hold for Python's arithmetic whatever it rounds and wherever it raises. The
  0/1 flags and the two configured sizes are \<^typ>\<open>int\<close>. Exceptions are values: every
  method returns the detector as the call left it (the object is mutated in place, so
  it survives a raise) together with the exception that reaches the caller, if any.
\<close>

datatype py_error =
    StatisticsError | NameError | IndexError | ZeroDivisionError | KeyError
  | OverflowError | ValueError | DatetimeRangeError

text \<open>
  Python's \<^verbatim>\<open>round(x, n)\<close>: the nearest multiple of \<open>10\<^sup>-\<^sup>n\<close>, a tie going to the
  even neighbour.
\<close>

definition round_half_even :: "real \<Rightarrow> int" where
  "round_half_even x =
     (let f = \<lfloor>x\<rfloor> in
      if x - of_int f < 1 / 2 then f
      else if x - of_int f > 1 / 2 then f + 1
      else if even f then f else f + 1)"

definition py_round :: "real \<Rightarrow> nat \<Rightarrow> real" where
  "py_round x n = of_int (round_half_even (x * 10 ^ n)) / 10 ^ n"

text \<open>
  \<^verbatim>\<open>statistics.mean\<close> and \<^verbatim>\<open>statistics.stdev\<close> of the standard library: the
  arithmetic mean, which needs one data point, and the square root of the sample
  variance (divisor \<open>n - 1\<close>), which needs two; both raise StatisticsError otherwise.
\<close>

definition statistics_mean :: "real list \<Rightarrow> py_error + real" where
  "statistics_mean xs =
     (if xs = [] then Inl StatisticsError
      else Inr (sum_list xs / of_nat (length xs)))"

definition statistics_stdev :: "real list \<Rightarrow> py_error + real" where
  "statistics_stdev xs =
     (if length xs < 2 then Inl StatisticsError
      else let m = sum_list xs / of_nat (length xs) in
        Inr (sqrt (sum_list (map (\<lambda>x. (x - m) ^ 2) xs) / of_nat (length xs - 1))))"

section \<open>The detector: class AnomalyDetectionZscore\<close>

text \<open>
  One field per attribute that \<^verbatim>\<open>__init__\<close> sets, without the leading underscore. The
  attribute \<^verbatim>\<open>_logger\<close> is stored by the constructor and read by no method, so it has no
  field here.
\<close>

record 'v zscore_detector =
  model_data :: "'v list"
  model_size :: int
  anomaly_list :: "int list"
  anomaly_list_size :: int
  anomaly_ratio :: 'v
  anomaly :: int
  model_avg :: 'v
  model_std_dev :: 'v
  z_score :: 'v
  z_score_thresh :: 'v
  name :: string

type_synonym detector = "real zscore_detector"

definition init_detector :: "string \<Rightarrow> int \<Rightarrow> int \<Rightarrow> detector" where
  "init_detector nm msize alsize =
     \<lparr> model_data = [], model_size = msize, anomaly_list = [],
       anomaly_list_size = alsize, anomaly_ratio = 0, anomaly = 0, model_avg = 0,
       model_std_dev = 0, z_score = 0, z_score_thresh = 0, name = nm \<rparr>"

text \<open>
  The methods call \<^verbatim>\<open>logger.error(...)\<close> on the bare name \<^verbatim>\<open>logger\<close>. Python looks a
  bare name up in the globals of the module that defines the function, here
  \<^verbatim>\<open>helper.py\<close>, which binds only \<^verbatim>\<open>statistics\<close> and the class: the logger of
  \<^verbatim>\<open>app_fastapi.py\<close> is handed to the constructor and kept in \<^verbatim>\<open>self._logger\<close>. So the
  call raises NameError before anything is logged.
\<close>

definition helper_logger_error :: "py_error option" where
  "helper_logger_error = Some NameError"

text \<open>The setter of the property \<^verbatim>\<open>z_score_thresh\<close>.\<close>

definition z_score_thresh_setter :: "detector \<Rightarrow> real \<Rightarrow> detector \<times> py_error option" where
  "z_score_thresh_setter s z_score_threshold =
     (if z_score_threshold = 0 then
        (case helper_logger_error of
           Some e \<Rightarrow> (s, Some e)
         | None \<Rightarrow> (s\<lparr>z_score_thresh := 2.0\<rparr>, None))
      else (s\<lparr>z_score_thresh := z_score_threshold\<rparr>, None))"

definition reset_algorithm :: "detector \<Rightarrow> detector" where
  "reset_algorithm s =
     s\<lparr> model_data := [], anomaly_list := [], anomaly_ratio := 0, anomaly := 0,
        model_avg := 0, model_std_dev := 0, z_score := 0 \<rparr>"

definition is_model_complete :: "'v zscore_detector \<Rightarrow> bool" where
  "is_model_complete s \<longleftrightarrow> int (length (model_data s)) = model_size s"

text \<open>
  The \<^verbatim>\<open>try\<close> block of \<^verbatim>\<open>calculate_anomaly_ratio\<close>. \<^verbatim>\<open>pop(0)\<close> raises IndexError on
  an empty list and the division raises ZeroDivisionError on a size of zero; the
  assignments made before a raise stay.
\<close>

definition calculate_anomaly_ratio_try :: "detector \<Rightarrow> detector \<times> py_error option" where
  "calculate_anomaly_ratio_try s =
     (if is_model_complete s then
        if int (length (anomaly_list s)) < anomaly_list_size s then
          (s\<lparr>anomaly_list := anomaly_list s @ [anomaly s]\<rparr>, None)
        else if anomaly_list s = [] then (s, Some IndexError)
        else
          let s1 = s\<lparr>anomaly_list := tl (anomaly_list s) @ [anomaly s]\<rparr> in
          if anomaly_list_size s1 = 0 then (s1, Some ZeroDivisionError)
          else
            (s1\<lparr>anomaly_ratio :=
                 py_round (of_int (sum_list (anomaly_list s1)) / of_int (anomaly_list_size s1)) 3\<rparr>,
             None)
      else (s, None))"

text \<open>
  \<^verbatim>\<open>except Exception as e: logger.error(...)\<close>: the handler catches every exception of
  the block and then raises its own.
\<close>

definition except_log :: "'a \<times> py_error option \<Rightarrow> 'a \<times> py_error option" where
  "except_log r = (case r of (s, None) \<Rightarrow> (s, None) | (s, Some e) \<Rightarrow> (s, helper_logger_error))"

definition calculate_anomaly_ratio :: "detector \<Rightarrow> detector \<times> py_error option" where
  "calculate_anomaly_ratio s = except_log (calculate_anomaly_ratio_try s)"

text \<open>
  The \<^verbatim>\<open>try\<close> block of \<^verbatim>\<open>check_if_anomaly\<close>. The standard deviation is replaced by
  0.001 when it is zero, so the division cannot fail; \<^verbatim>\<open>pop(0)\<close> is reached only
  when \<^verbatim>\<open>stdev\<close> has returned, that is on a list of two elements or more.
\<close>

definition check_if_anomaly_try :: "detector \<Rightarrow> real \<Rightarrow> detector \<times> py_error option" where
  "check_if_anomaly_try s v =
     (if is_model_complete s then
        (case statistics_mean (model_data s) of
           Inl e \<Rightarrow> (s, Some e)
         | Inr m \<Rightarrow>
            let s1 = s\<lparr>model_avg := py_round \<bar>m\<bar> 3\<rparr> in
            (case statistics_stdev (model_data s1) of
               Inl e \<Rightarrow> (s1, Some e)
             | Inr sd \<Rightarrow>
                let s2 = s1\<lparr>model_std_dev := \<bar>sd\<bar>\<rparr>;
                    s3 = (if model_std_dev s2 = 0 then s2\<lparr>model_std_dev := 0.001\<rparr> else s2);
                    s4 = s3\<lparr>z_score := py_round ((\<bar>v\<bar> - model_avg s3) / model_std_dev s3) 3\<rparr>
                in
                  if \<bar>z_score s4\<bar> > z_score_thresh s4 then (s4\<lparr>anomaly := 1\<rparr>, None)
                  else if model_data s4 = [] then (s4, Some IndexError)
                  else (s4\<lparr>model_data := tl (model_data s4) @ [v], anomaly := 0\<rparr>, None)))
      else (s\<lparr>model_data := model_data s @ [v]\<rparr>, None))"

definition check_if_anomaly :: "detector \<Rightarrow> real \<Rightarrow> detector \<times> py_error option" where
  "check_if_anomaly s v = except_log (check_if_anomaly_try s v)"

subsection \<open>The detector on arbitrary Python numbers\<close>

text \<open>
  A reading may be any Python number: an int of any size or a float, whose arithmetic
  rounds and may raise (an int too large for a float raises OverflowError). The
  operations that \<^verbatim>\<open>check_if_anomaly\<close> applies to numbers are the fields of a record,
  one per operation, over a type \<open>'v\<close> of numbers: \<^verbatim>\<open>abs\<close>, \<^verbatim>\<open>round(x, n)\<close>, \<^verbatim>\<open>-\<close>,
  \<^verbatim>\<open>/\<close>, \<^verbatim>\<open>== 0\<close>, \<^verbatim>\<open>>\<close>, \<^verbatim>\<open>statistics.mean\<close>, \<^verbatim>\<open>statistics.stdev\<close> and the literal
  \<^verbatim>\<open>0.001\<close>. \<^verbatim>\<open>abs\<close> and the comparisons of ints and floats do not raise.
\<close>

record 'v py_numbers =
  num_abs :: "'v \<Rightarrow> 'v"
  num_round :: "'v \<Rightarrow> nat \<Rightarrow> py_error + 'v"
  num_sub :: "'v \<Rightarrow> 'v \<Rightarrow> py_error + 'v"
  num_truediv :: "'v \<Rightarrow> 'v \<Rightarrow> py_error + 'v"
  num_eq_zero :: "'v \<Rightarrow> bool"
  num_gt :: "'v \<Rightarrow> 'v \<Rightarrow> bool"
  num_mean :: "'v list \<Rightarrow> py_error + 'v"
  num_stdev :: "'v list \<Rightarrow> py_error + 'v"
  num_0_001 :: 'v

text \<open>
  \<^verbatim>\<open>check_if_anomaly\<close> statement by statement, each operation in the order Python
  evaluates it; an exception leaves the \<^verbatim>\<open>try\<close> block with the assignments made so far.
\<close>

definition check_if_anomaly_try_py ::
    "'v py_numbers \<Rightarrow> 'v zscore_detector \<Rightarrow> 'v \<Rightarrow> 'v zscore_detector \<times> py_error option" where
  "check_if_anomaly_try_py N s v =
     (if is_model_complete s then
        (case num_mean N (model_data s) of
           Inl e \<Rightarrow> (s, Some e)
         | Inr m \<Rightarrow>
        (case num_round N (num_abs N m) 3 of
           Inl e \<Rightarrow> (s, Some e)
         | Inr avg \<Rightarrow>
            let s1 = s\<lparr>model_avg := avg\<rparr> in
        (case num_stdev N (model_data s1) of
           Inl e \<Rightarrow> (s1, Some e)
         | Inr sd \<Rightarrow>
            let s2 = s1\<lparr>model_std_dev := num_abs N sd\<rparr>;
                s3 = (if num_eq_zero N (model_std_dev s2)
                      then s2\<lparr>model_std_dev := num_0_001 N\<rparr> else s2)
            in
        (case num_sub N (num_abs N v) (model_avg s3) of
           Inl e \<Rightarrow> (s3, Some e)
         | Inr d \<Rightarrow>
        (case num_truediv N d (model_std_dev s3) of
           Inl e \<Rightarrow> (s3, Some e)
         | Inr q \<Rightarrow>
        (case num_round N q 3 of
           Inl e \<Rightarrow> (s3, Some e)
         | Inr z \<Rightarrow>
            let s4 = s3\<lparr>z_score := z\<rparr> in
            if num_gt N (num_abs N (z_score s4)) (z_score_thresh s4)
            then (s4\<lparr>anomaly := 1\<rparr>, None)
            else if model_data s4 = [] then (s4, Some IndexError)
            else (s4\<lparr>model_data := tl (model_data s4) @ [v], anomaly := 0\<rparr>, None)))))))
      else (s\<lparr>model_data := model_data s @ [v]\<rparr>, None))"

definition check_if_anomaly_py ::
    "'v py_numbers \<Rightarrow> 'v zscore_detector \<Rightarrow> 'v \<Rightarrow> 'v zscore_detector \<times> py_error option" where
  "check_if_anomaly_py N s v = except_log (check_if_anomaly_try_py N s v)"

text \<open>
  Exact arithmetic on real numbers: what Python computes wherever the operands and
  the results are exactly representable. \<^verbatim>\<open>check_if_anomaly\<close> above is
  \<^verbatim>\<open>check_if_anomaly_py\<close> with these operations.
\<close>

definition exact_numbers :: "real py_numbers" where
  "exact_numbers =
     \<lparr> num_abs = abs,
       num_round = (\<lambda>x n. Inr (py_round x n)),
       num_sub = (\<lambda>a b. Inr (a - b)),
       num_truediv = (\<lambda>a b. if b = 0 then Inl ZeroDivisionError else Inr (a / b)),
       num_eq_zero = (\<lambda>x. x = 0),
       num_gt = (\<lambda>a b. a > b),
       num_mean = statistics_mean,
       num_stdev = statistics_stdev,
       num_0_001 = 0.001 \<rparr>"

text \<open>
  A caller that makes one call after another on the same detector (the threshold
  setter, \<^verbatim>\<open>check_if_anomaly\<close>, \<^verbatim>\<open>calculate_anomaly_ratio\<close>) and looks at it after
  each call: the detector is the one the call left behind, whether the call returned
  or raised.
\<close>

datatype call = SetThreshold real | Evaluate real | UpdateAnomalyRatio

fun do_call :: "detector \<Rightarrow> call \<Rightarrow> detector" where
  "do_call s (SetThreshold t) = fst (z_score_thresh_setter s t)"
| "do_call s (Evaluate v) = fst (check_if_anomaly s v)"
| "do_call s UpdateAnomalyRatio = fst (calculate_anomaly_ratio s)"

fun run_calls :: "detector \<Rightarrow> call list \<Rightarrow> detector list" where
  "run_calls s [] = []"
| "run_calls s (c # cs) = do_call s c # run_calls (do_call s c) cs"

text \<open>The two bounds of the data model: neither window is longer than its size.\<close>

definition window_bounds :: "detector \<Rightarrow> bool" where
  "window_bounds s \<longleftrightarrow>
     int (length (model_data s)) \<le> model_size s \<and>
     int (length (anomaly_list s)) \<le> anomaly_list_size s"

text \<open>
  The detector of the scenarios: built with a model size of 3, its threshold set to
  2.0, then fed three readings.
\<close>

definition scenario_baseline :: "string \<Rightarrow> int \<Rightarrow> real \<Rightarrow> real \<Rightarrow> real \<Rightarrow> detector" where
  "scenario_baseline nm alsize a b c =
     foldl do_call (fst (z_score_thresh_setter (init_detector nm 3 alsize) 2))
       [Evaluate a, Evaluate b, Evaluate c]"

section \<open>The dispatcher: the handlers of app\_fastapi.py\<close>

text \<open>
  The handlers are modelled on events whose JSON body holds every key the handler
  reads, with a string for each name and a number for each reading; the time stamp is
  the integer number of milliseconds. A record written to InfluxDB is the point handed
  to \<^verbatim>\<open>write_to_influx\<close>: its measurement, its tags, its fields (the integer flag
  among the numbers) and its time.
\<close>

record event =
  SensorName :: string
  LineName :: string
  MachineName :: string
  TimeStamp :: int

record sensor_event = event +
  SensorValue :: real

record vibration_event = event +
  VibAccelTotRmsX :: real
  VibAccelTotRmsY :: real
  VibAccelTotRmsZ :: real

record point =
  measurement :: string
  point_tags :: "(string \<times> string) list"
  point_fields :: "(string \<times> real) list"
  time_ms :: int

text \<open>
  The state of the application object that the handlers use: the two lists of sensor
  names read from the JSON files and the two dictionaries of detectors.
\<close>

record app =
  generic_sensors_for_analytics :: "string list"
  generic_analytics_objects :: "string \<rightharpoonup> detector"
  vibration_sensors_for_analytics :: "string list"
  vibration_analytics_objects :: "string \<rightharpoonup> detector"

text \<open>
  The conversions of the Python runtime that the handlers apply to the numbers of an
  event, as the fields of a record: \<^verbatim>\<open>round(x, n)\<close>, which does not raise on a
  finite number and a positive n; \<^verbatim>\<open>float(x)\<close>, which raises OverflowError on an int
  too large for a float; \<^verbatim>\<open>x ** 2\<close>, \<^verbatim>\<open>+\<close> and \<^verbatim>\<open>math.sqrt\<close>; and
  \<^verbatim>\<open>datetime.fromtimestamp(int(ts) / 1000, UTC)\<close>, which raises on a time stamp
  outside the years 1 to 9999 (ValueError, or OverflowError and OSError farther out:
  one error value stands for the three).
\<close>

record py_runtime =
  rt_round :: "real \<Rightarrow> nat \<Rightarrow> real"
  rt_float :: "real \<Rightarrow> py_error + real"
  rt_pow2 :: "real \<Rightarrow> py_error + real"
  rt_add :: "real \<Rightarrow> real \<Rightarrow> py_error + real"
  rt_sqrt :: "real \<Rightarrow> py_error + real"
  rt_fromtimestamp :: "int \<Rightarrow> py_error + int"

text \<open>\<^verbatim>\<open>round(float(x), 4)\<close>, the form of every analytics field.\<close>

definition round_float_4 :: "py_runtime \<Rightarrow> real \<Rightarrow> py_error + real" where
  "round_float_4 rt x =
     (case rt_float rt x of Inl e \<Rightarrow> Inl e | Inr f \<Rightarrow> Inr (rt_round rt f 4))"

text \<open>
  The analytics fields of a point, evaluated in the order of the source; the
  detector is the one of the handler's sensor after the three calls.
\<close>

definition analytics_fields :: "py_runtime \<Rightarrow> detector \<Rightarrow> py_error + (string \<times> real) list" where
  "analytics_fields rt d =
     (case round_float_4 rt (anomaly_ratio d) of Inl e \<Rightarrow> Inl e | Inr ratio \<Rightarrow>
      case round_float_4 rt (model_avg d) of Inl e \<Rightarrow> Inl e | Inr avg \<Rightarrow>
      case round_float_4 rt (z_score d) of Inl e \<Rightarrow> Inl e | Inr z \<Rightarrow>
      case round_float_4 rt (z_score_thresh d) of Inl e \<Rightarrow> Inl e | Inr thr \<Rightarrow>
        Inr [(''anomaly'', of_int (anomaly d)), (''anomaly_ratio'', ratio),
             (''model_avg'', avg), (''z_score'', z), (''z_score_thresh'', thr)])"

definition event_tags :: "'a event_scheme \<Rightarrow> (string \<times> string) list" where
  "event_tags data =
     [(''line_name'', LineName data), (''machine_name'', MachineName data),
      (''sensor_name'', SensorName data)]"

text \<open>
  The point of the measurement SingleSensorAnalytics: the tags, the field
  \<^verbatim>\<open>float(round(SensorValue, 4))\<close>, the analytics fields, then the time.
\<close>

definition single_sensor_analytics_point ::
    "py_runtime \<Rightarrow> sensor_event \<Rightarrow> detector \<Rightarrow> py_error + point" where
  "single_sensor_analytics_point rt data d =
     (case rt_float rt (rt_round rt (SensorValue data) 4) of Inl e \<Rightarrow> Inl e | Inr v \<Rightarrow>
      case analytics_fields rt d of Inl e \<Rightarrow> Inl e | Inr fs \<Rightarrow>
      case rt_fromtimestamp rt (TimeStamp data) of Inl e \<Rightarrow> Inl e | Inr t \<Rightarrow>
        Inr \<lparr> measurement = ''SingleSensorAnalytics'', point_tags = event_tags data,
              point_fields = (''value'', v) # fs, time_ms = t \<rparr>)"

text \<open>The point of the measurement GenericSensor: the tags, the one field, the time.\<close>

definition generic_sensor_point :: "py_runtime \<Rightarrow> sensor_event \<Rightarrow> py_error + point" where
  "generic_sensor_point rt data =
     (case rt_float rt (rt_round rt (SensorValue data) 4) of Inl e \<Rightarrow> Inl e | Inr v \<Rightarrow>
      case rt_fromtimestamp rt (TimeStamp data) of Inl e \<Rightarrow> Inl e | Inr t \<Rightarrow>
        Inr \<lparr> measurement = ''GenericSensor'', point_tags = event_tags data,
              point_fields = [(''value'', v)], time_ms = t \<rparr>)"

definition vib_sensor_point ::
    "py_runtime \<Rightarrow> vibration_event \<Rightarrow> real \<Rightarrow> detector \<Rightarrow> py_error + point" where
  "vib_sensor_point rt data rms d =
     (case analytics_fields rt d of Inl e \<Rightarrow> Inl e | Inr fs \<Rightarrow>
      case rt_fromtimestamp rt (TimeStamp data) of Inl e \<Rightarrow> Inl e | Inr t \<Rightarrow>
        Inr \<lparr> measurement = ''VibSensor'', point_tags = event_tags data,
              point_fields =
                [(''vib_accel_rms_x'', rt_round rt (VibAccelTotRmsX data) 4),
                 (''vib_accel_rms_y'', rt_round rt (VibAccelTotRmsY data) 4),
                 (''vib_accel_rms_z'', rt_round rt (VibAccelTotRmsZ data) 4),
                 (''vib_accel_rms_total'', rt_round rt rms 4)] @ fs,
              time_ms = t \<rparr>)"

text \<open>
  \<^verbatim>\<open>sensor_data\<close>, the handler of \<^verbatim>\<open>/generic-sensor\<close>. The second argument is the
  module constant \<^verbatim>\<open>Z_SCORE_THRESHOLD\<close>. The result is the application state after the
  call, the points handed to \<^verbatim>\<open>write_to_influx\<close> and the exception that leaves the
  handler, if any. The detector calls and the construction of the point are in the
  \<^verbatim>\<open>else\<close> block of the \<^verbatim>\<open>try\<close> statement, which no \<^verbatim>\<open>except\<close> clause covers: an
  exception there skips the rest of the handler, so that nothing is written. A name
  of the list with no detector in the dictionary raises KeyError. The detector of a
  configured sensor runs in exact arithmetic.
\<close>

definition sensor_data ::
    "py_runtime \<Rightarrow> real \<Rightarrow> app \<Rightarrow> sensor_event \<Rightarrow> app \<times> point list \<times> py_error option" where
  "sensor_data rt Z_SCORE_THRESHOLD a data =
     (let sensor_name = SensorName data; sensor_value = SensorValue data;
          store = (\<lambda>d. a\<lparr>generic_analytics_objects := (generic_analytics_objects a)(sensor_name \<mapsto> d)\<rparr>)
      in
      if sensor_name \<in> set (generic_sensors_for_analytics a) then
        (case generic_analytics_objects a sensor_name of
           None \<Rightarrow> (a, [], Some KeyError)
         | Some d \<Rightarrow>
            (case z_score_thresh_setter d Z_SCORE_THRESHOLD of
               (d1, Some e) \<Rightarrow> (store d1, [], Some e)
             | (d1, None) \<Rightarrow>
                (case check_if_anomaly d1 sensor_value of
                   (d2, Some e) \<Rightarrow> (store d2, [], Some e)
                 | (d2, None) \<Rightarrow>
                    (case calculate_anomaly_ratio d2 of
                       (d3, Some e) \<Rightarrow> (store d3, [], Some e)
                     | (d3, None) \<Rightarrow>
                        (case single_sensor_analytics_point rt data d3 of
                           Inl e \<Rightarrow> (store d3, [], Some e)
                         | Inr p \<Rightarrow> (store d3, [p], None))))))
      else
        (case generic_sensor_point rt data of
           Inl e \<Rightarrow> (a, [], Some e)
         | Inr p \<Rightarrow> (a, [p], None)))"

text \<open>
  \<^verbatim>\<open>vibration_sensor_data\<close>, the handler of \<^verbatim>\<open>/vibration-sensor\<close>. The total is computed
  inside the branch of a configured sensor, before the detector is touched; the
  handler has no \<^verbatim>\<open>else\<close> branch for the other sensors.
\<close>

definition vib_total_rms :: "py_runtime \<Rightarrow> real \<Rightarrow> real \<Rightarrow> real \<Rightarrow> py_error + real" where
  "vib_total_rms rt x y z =
     (case rt_pow2 rt x of Inl e \<Rightarrow> Inl e | Inr xx \<Rightarrow>
      case rt_pow2 rt y of Inl e \<Rightarrow> Inl e | Inr yy \<Rightarrow>
      case rt_add rt xx yy of Inl e \<Rightarrow> Inl e | Inr xy \<Rightarrow>
      case rt_pow2 rt z of Inl e \<Rightarrow> Inl e | Inr zz \<Rightarrow>
      case rt_add rt xy zz of Inl e \<Rightarrow> Inl e | Inr sumsq \<Rightarrow>
      case rt_sqrt rt sumsq of Inl e \<Rightarrow> Inl e | Inr r \<Rightarrow>
      case rt_float rt r of Inl e \<Rightarrow> Inl e | Inr f \<Rightarrow> Inr (rt_round rt f 5))"

definition vibration_sensor_data ::
    "py_runtime \<Rightarrow> real \<Rightarrow> app \<Rightarrow> vibration_event \<Rightarrow> app \<times> point list \<times> py_error option" where
  "vibration_sensor_data rt Z_SCORE_THRESHOLD a data =
     (let sensor_name = SensorName data;
          store = (\<lambda>d. a\<lparr>vibration_analytics_objects := (vibration_analytics_objects a)(sensor_name \<mapsto> d)\<rparr>)
      in
      if sensor_name \<in> set (vibration_sensors_for_analytics a) then
        (case vib_total_rms rt (VibAccelTotRmsX data) (VibAccelTotRmsY data)
                (VibAccelTotRmsZ data) of
           Inl e \<Rightarrow> (a, [], Some e)
         | Inr rms \<Rightarrow>
        (case vibration_analytics_objects a sensor_name of
           None \<Rightarrow> (a, [], Some KeyError)
         | Some d \<Rightarrow>
            (case z_score_thresh_setter d Z_SCORE_THRESHOLD of
               (d1, Some e) \<Rightarrow> (store d1, [], Some e)
             | (d1, None) \<Rightarrow>
                (case check_if_anomaly d1 rms of
                   (d2, Some e) \<Rightarrow> (store d2, [], Some e)
                 | (d2, None) \<Rightarrow>
                    (case calculate_anomaly_ratio d2 of
                       (d3, Some e) \<Rightarrow> (store d3, [], Some e)
                     | (d3, None) \<Rightarrow>
                        (case vib_sensor_point rt data rms d3 of
                           Inl e \<Rightarrow> (store d3, [], Some e)
                         | Inr p \<Rightarrow> (store d3, [p], None)))))))
      else (a, [], None))"

text \<open>
  The runtime in exact arithmetic: what Python computes wherever the operands and the
  results are exactly representable. A number of magnitude \<open>2\<^sup>1\<^sup>0\<^sup>2\<^sup>4 - 2\<^sup>9\<^sup>7\<^sup>0\<close> or
  more rounds to no float; such a number is an int, and its conversion raises
  OverflowError. A square that large raises OverflowError at \<^verbatim>\<open>**\<close> when the axis is
  a float and at \<^verbatim>\<open>math.sqrt\<close> when it is an int, in both cases before the detector
  is touched. The time stamps of the years 1 to 9999 are those from -62135596800000
  to 253402300799999 milliseconds.
\<close>

definition float_too_large :: "real \<Rightarrow> bool" where
  "float_too_large x \<longleftrightarrow> \<bar>x\<bar> \<ge> 2 ^ 1024 - 2 ^ 970"

definition exact_runtime :: py_runtime where
  "exact_runtime =
     \<lparr> rt_round = py_round,
       rt_float = (\<lambda>x. if float_too_large x then Inl OverflowError else Inr x),
       rt_pow2 = (\<lambda>x. if float_too_large (x ^ 2) then Inl OverflowError else Inr (x ^ 2)),
       rt_add = (\<lambda>x y. Inr (x + y)),
       rt_sqrt = (\<lambda>x. if x < 0 then Inl ValueError
                       else if float_too_large x then Inl OverflowError else Inr (sqrt x)),
       rt_fromtimestamp =
         (\<lambda>ms. if ms < - 62135596800000 \<or> 253402300799999 < ms
               then Inl DatetimeRangeError else Inr ms) \<rparr>"

text \<open>
  An application with one configured generic sensor and one configured vibration
  sensor, each with a fresh detector, and events for a given sensor name.
\<close>

definition example_app :: app where
  "example_app =
     \<lparr> generic_sensors_for_analytics = [''temp1''],
       generic_analytics_objects = [''temp1'' \<mapsto> init_detector ''temp1'' 25 25],
       vibration_sensors_for_analytics = [''vib1''],
       vibration_analytics_objects = [''vib1'' \<mapsto> init_detector ''vib1'' 25 25] \<rparr>"

definition example_sensor_event :: "string \<Rightarrow> real \<Rightarrow> sensor_event" where
  "example_sensor_event nm v =
     \<lparr> SensorName = nm, LineName = ''line1'', MachineName = ''machine1'',
       TimeStamp = 1700000000000, SensorValue = v \<rparr>"

definition example_vibration_event :: "string \<Rightarrow> real \<Rightarrow> real \<Rightarrow> real \<Rightarrow> vibration_event" where
  "example_vibration_event nm x y z =
     \<lparr> SensorName = nm, LineName = ''line1'', MachineName = ''machine1'',
       TimeStamp = 1700000000000, VibAccelTotRmsX = x, VibAccelTotRmsY = y,
       VibAccelTotRmsZ = z \<rparr>"

section \<open>Rounding and frame lemmas\<close>

lemma round_half_even_of_int: "round_half_even (of_int k) = k"
  by (simp add: round_half_even_def)

lemma py_round_of_int: "py_round (of_int k) n = of_int k"
proof -
  have "(of_int k :: real) * 10 ^ n = of_int (k * 10 ^ n)" by simp
  then have "round_half_even (of_int k * 10 ^ n) = k * 10 ^ n"
    by (simp only: round_half_even_of_int)
  then show ?thesis by (simp add: py_round_def)
qed

lemma py_round_zero: "py_round 0 n = 0"
  using py_round_of_int [of 0 n] by simp

lemma py_round_numeral: "py_round (numeral w) n = numeral w"
  using py_round_of_int [of "numeral w" n] by simp

lemma py_round_half: "py_round (1 / 2) 3 = 1 / 2"
proof -
  have "round_half_even (1 / 2 * 10 ^ 3) = 500"
    using round_half_even_of_int [of 500] by simp
  then show ?thesis by (simp add: py_round_def)
qed

lemmas detector_defs = check_if_anomaly_def check_if_anomaly_try_def except_log_def
  is_model_complete_def statistics_mean_def statistics_stdev_def Let_def

lemma except_log_fst: "fst (except_log r) = fst r"
  by (cases r) (simp add: except_log_def split: option.splits)

lemma check_if_anomaly_frame:
  "anomaly_list (fst (check_if_anomaly s v)) = anomaly_list s \<and>
   anomaly_list_size (fst (check_if_anomaly s v)) = anomaly_list_size s \<and>
   anomaly_ratio (fst (check_if_anomaly s v)) = anomaly_ratio s \<and>
   model_size (fst (check_if_anomaly s v)) = model_size s \<and>
   z_score_thresh (fst (check_if_anomaly s v)) = z_score_thresh s \<and>
   name (fst (check_if_anomaly s v)) = name s"
  by (simp add: check_if_anomaly_def except_log_fst check_if_anomaly_try_def Let_def
      split: sum.splits)

lemma check_if_anomaly_length:
  "int (length (model_data s)) \<le> model_size s \<Longrightarrow>
   int (length (model_data (fst (check_if_anomaly s v)))) \<le> model_size s"
  by (auto simp add: check_if_anomaly_def except_log_fst check_if_anomaly_try_def Let_def
      is_model_complete_def split: sum.splits)

lemma check_if_anomaly_complete:
  "is_model_complete s \<Longrightarrow> is_model_complete (fst (check_if_anomaly s v))"
  by (auto simp add: check_if_anomaly_def except_log_fst check_if_anomaly_try_def Let_def
      is_model_complete_def split: sum.splits)

lemma calculate_anomaly_ratio_frame:
  "model_data (fst (calculate_anomaly_ratio s)) = model_data s \<and>
   model_size (fst (calculate_anomaly_ratio s)) = model_size s \<and>
   anomaly_list_size (fst (calculate_anomaly_ratio s)) = anomaly_list_size s"
  by (simp add: calculate_anomaly_ratio_def except_log_fst calculate_anomaly_ratio_try_def
      Let_def)

lemma calculate_anomaly_ratio_length:
  "int (length (anomaly_list s)) \<le> anomaly_list_size s \<Longrightarrow>
   int (length (anomaly_list (fst (calculate_anomaly_ratio s)))) \<le> anomaly_list_size s"
  by (auto simp add: calculate_anomaly_ratio_def except_log_fst
      calculate_anomaly_ratio_try_def Let_def)

lemma calculate_anomaly_ratio_append:
  "is_model_complete s \<Longrightarrow> int (length (anomaly_list s)) < anomaly_list_size s \<Longrightarrow>
   calculate_anomaly_ratio s = (s\<lparr>anomaly_list := anomaly_list s @ [anomaly s]\<rparr>, None)"
  by (simp add: calculate_anomaly_ratio_def calculate_anomaly_ratio_try_def except_log_def)

lemma calculate_anomaly_ratio_slide:
  "is_model_complete s \<Longrightarrow> \<not> int (length (anomaly_list s)) < anomaly_list_size s \<Longrightarrow>
   anomaly_list s \<noteq> [] \<Longrightarrow> anomaly_list_size s \<noteq> 0 \<Longrightarrow>
   calculate_anomaly_ratio s =
     (s\<lparr>anomaly_list := tl (anomaly_list s) @ [anomaly s],
        anomaly_ratio :=
          py_round (of_int (sum_list (tl (anomaly_list s) @ [anomaly s]))
                    / of_int (anomaly_list_size s)) 3\<rparr>, None)"
  by (simp add: calculate_anomaly_ratio_def calculate_anomaly_ratio_try_def except_log_def
      Let_def)

lemma z_score_thresh_setter_frame:
  "model_data (fst (z_score_thresh_setter s t)) = model_data s \<and>
   model_size (fst (z_score_thresh_setter s t)) = model_size s \<and>
   anomaly_list (fst (z_score_thresh_setter s t)) = anomaly_list s \<and>
   anomaly_list_size (fst (z_score_thresh_setter s t)) = anomaly_list_size s"
  by (simp add: z_score_thresh_setter_def helper_logger_error_def)

lemma do_call_window_bounds: "window_bounds s \<Longrightarrow> window_bounds (do_call s c)"
  by (cases c)
    (simp_all add: window_bounds_def check_if_anomaly_frame check_if_anomaly_length
      calculate_anomaly_ratio_frame calculate_anomaly_ratio_length
      z_score_thresh_setter_frame)

lemma run_calls_window_bounds:
  "window_bounds s \<Longrightarrow> \<forall>s' \<in> set (run_calls s cs). window_bounds s'"
proof (induction cs arbitrary: s)
  case Nil
  then show ?case by simp
next
  case (Cons c cs)
  have step: "window_bounds (do_call s c)"
    using Cons.prems by (rule do_call_window_bounds)
  from Cons.IH [OF step] step show ?case by simp
qed

lemma scenario_baseline_eq:
  "scenario_baseline nm alsize a b c =
     \<lparr> model_data = [a, b, c], model_size = 3, anomaly_list = [],
       anomaly_list_size = alsize, anomaly_ratio = 0, anomaly = 0, model_avg = 0,
       model_std_dev = 0, z_score = 0, z_score_thresh = 2, name = nm \<rparr>"
  by (simp add: scenario_baseline_def z_score_thresh_setter_def init_detector_def
      check_if_anomaly_def check_if_anomaly_try_def except_log_def is_model_complete_def)

lemma check_if_anomaly_building:
  "int (length (model_data s)) \<noteq> model_size s \<Longrightarrow>
   check_if_anomaly s v = (s\<lparr>model_data := model_data s @ [v]\<rparr>, None)"
  by (simp add: check_if_anomaly_def check_if_anomaly_try_def except_log_def
      is_model_complete_def)

lemma scenario_a_start:
  "fst (z_score_thresh_setter (init_detector nm 3 alsize) 2) =
     \<lparr> model_data = [], model_size = 3, anomaly_list = [],
       anomaly_list_size = alsize, anomaly_ratio = 0, anomaly = 0, model_avg = 0,
       model_std_dev = 0, z_score = 0, z_score_thresh = 2, name = nm \<rparr>"
  by (simp add: z_score_thresh_setter_def init_detector_def)

lemma scenario_a_fourth:
  "check_if_anomaly (scenario_baseline nm alsize 10 10 10) 10 =
     (\<lparr> model_data = [10, 10, 10], model_size = 3, anomaly_list = [],
       anomaly_list_size = alsize, anomaly_ratio = 0, anomaly = 0, model_avg = 10,
       model_std_dev = 0.001, z_score = 0, z_score_thresh = 2, name = nm \<rparr>, None)"
  by (simp add: scenario_baseline_eq detector_defs py_round_zero py_round_numeral)

lemma scenario_a_fifth:
  "check_if_anomaly
     \<lparr> model_data = [10, 10, 10], model_size = 3, anomaly_list = al,
       anomaly_list_size = alsize, anomaly_ratio = r, anomaly = fl, model_avg = avg,
       model_std_dev = sd, z_score = z, z_score_thresh = 2, name = nm \<rparr> 100 =
     (\<lparr> model_data = [10, 10, 10], model_size = 3, anomaly_list = al,
       anomaly_list_size = alsize, anomaly_ratio = r, anomaly = 1, model_avg = 10,
       model_std_dev = 0.001, z_score = 90000, z_score_thresh = 2, name = nm \<rparr>, None)"
  by (simp add: detector_defs py_round_zero py_round_numeral)

lemma check_if_anomaly_py_exact:
  "check_if_anomaly_py exact_numbers s v = check_if_anomaly s v"
  by (simp add: check_if_anomaly_py_def check_if_anomaly_def check_if_anomaly_try_py_def
      check_if_anomaly_try_def exact_numbers_def Let_def split: sum.splits)

















section \<open>Threshold setter, reset and the ratio before the baseline is complete\<close>

lemma z_score_thresh_setter_nonzero:
  "t \<noteq> 0 \<Longrightarrow> z_score_thresh_setter s t = (s\<lparr>z_score_thresh := t\<rparr>, None)"
  by (simp add: z_score_thresh_setter_def)

text \<open>
  Claim C1, at the argument 0: the setter reaches \<^verbatim>\<open>logger.error\<close> first, which raises
  NameError; the assignment of 2.0 is never executed, the stored threshold keeps its
  old value and the exception reaches the caller.
\<close>

theorem z_score_thresh_setter_zero_raises:
  "z_score_thresh_setter s 0 = (s, Some NameError)"
  by (simp add: z_score_thresh_setter_def helper_logger_error_def)

text \<open>
  Claim C7: \<^verbatim>\<open>reset_algorithm\<close> empties both windows, puts the ratio, the flag, the
  mean, the standard deviation and the z-score back to zero, and keeps the name, both
  sizes and the threshold, whatever the state it is called in.
\<close>

theorem reset_algorithm_clears_and_keeps:
  "model_data (reset_algorithm s) = [] \<and> anomaly_list (reset_algorithm s) = [] \<and>
   anomaly_ratio (reset_algorithm s) = 0 \<and> anomaly (reset_algorithm s) = 0 \<and>
   model_avg (reset_algorithm s) = 0 \<and> model_std_dev (reset_algorithm s) = 0 \<and>
   z_score (reset_algorithm s) = 0 \<and>
   name (reset_algorithm s) = name s \<and> model_size (reset_algorithm s) = model_size s \<and>
   anomaly_list_size (reset_algorithm s) = anomaly_list_size s \<and>
   z_score_thresh (reset_algorithm s) = z_score_thresh s"
  by (simp add: reset_algorithm_def)

text \<open>
  Claim C10: while the model window is shorter than the model size,
  \<^verbatim>\<open>calculate_anomaly_ratio\<close> returns normally and leaves the whole detector as it was.
\<close>

theorem calculate_anomaly_ratio_building_noop:
  "int (length (model_data s)) < model_size s \<Longrightarrow> calculate_anomaly_ratio s = (s, None)"
  by (simp add: calculate_anomaly_ratio_def calculate_anomaly_ratio_try_def
      is_model_complete_def except_log_def)

theorem calculate_anomaly_ratio_building_noop_witness:
  "int (length (model_data (init_detector ''s1'' 3 2))) < model_size (init_detector ''s1'' 3 2) \<and>
   calculate_anomaly_ratio (init_detector ''s1'' 3 2) = (init_detector ''s1'' 3 2, None)"
  using calculate_anomaly_ratio_building_noop [of "init_detector ''s1'' 3 2"]
  by (simp add: init_detector_def)

section \<open>The bounds of the two windows\<close>

text \<open>
  Claim C5, amended: for a detector built with sizes that are not negative, after every
  call of every sequence of \<^verbatim>\<open>check_if_anomaly\<close> and \<^verbatim>\<open>calculate_anomaly_ratio\<close> calls
  on it (with threshold updates anywhere in between), the model window is no longer
  than the model size and the anomaly window no longer than the anomaly list size,
  whether the call returned or raised.
\<close>

theorem window_bounds_after_every_call:
  "0 \<le> msize \<Longrightarrow> 0 \<le> alsize \<Longrightarrow>
   \<forall>s \<in> set (run_calls (init_detector nm msize alsize) cs).
     int (length (model_data s)) \<le> model_size s \<and>
     int (length (anomaly_list s)) \<le> anomaly_list_size s"
  using run_calls_window_bounds [of "init_detector nm msize alsize" cs]
  by (simp add: window_bounds_def init_detector_def)

theorem window_bounds_after_every_call_witness:
  "(0::int) \<le> 2 \<and> (0::int) \<le> 1 \<and>
   int (length (model_data (last (run_calls (init_detector ''s1'' 2 1)
     [SetThreshold 2, Evaluate 1, Evaluate 3, Evaluate 2, UpdateAnomalyRatio,
      UpdateAnomalyRatio])))) \<le> 2 \<and>
   int (length (anomaly_list (last (run_calls (init_detector ''s1'' 2 1)
     [SetThreshold 2, Evaluate 1, Evaluate 3, Evaluate 2, UpdateAnomalyRatio,
      UpdateAnomalyRatio])))) \<le> 1"
  using window_bounds_after_every_call [of 2 1 "''s1''"
      "[SetThreshold 2, Evaluate 1, Evaluate 3, Evaluate 2, UpdateAnomalyRatio,
        UpdateAnomalyRatio]"]
  by (simp add: check_if_anomaly_frame calculate_anomaly_ratio_frame
      z_score_thresh_setter_frame init_detector_def)

text \<open>
  The claim as stated, for every detector: a detector built with the model size -1 holds
  one reading after its first evaluation.
\<close>

theorem window_bounds_counterexample:
  "model_size (last (run_calls (init_detector ''s1'' (- 1) 25) [Evaluate 1])) = - 1 \<and>
   length (model_data (last (run_calls (init_detector ''s1'' (- 1) 25) [Evaluate 1]))) = 1 \<and>
   \<not> int (length (model_data (last (run_calls (init_detector ''s1'' (- 1) 25) [Evaluate 1]))))
       \<le> model_size (last (run_calls (init_detector ''s1'' (- 1) 25) [Evaluate 1]))"
  by (simp add: init_detector_def check_if_anomaly_def check_if_anomaly_try_def
      is_model_complete_def except_log_def)

section \<open>Scenario A: building the baseline, then classifying\<close>

text \<open>
  Claim C2, amended: a fresh detector with model size 3 and threshold 2.0 that has been
  fed 10, 10, 10 has the window [10, 10, 10] and is complete, and its mean, standard
  deviation and z-score are zero before, during and after these three calls. The next
  call, \<^verbatim>\<open>check_if_anomaly(10)\<close>, stores the mean 10 and the standard deviation 0.001 (the
  clamp of 0), the z-score 0 and the flag 0, and the window is [10, 10, 10] again. A
  further \<^verbatim>\<open>check_if_anomaly(100)\<close> stores the z-score 90000 and the flag 1 and leaves
  the window at [10, 10, 10]. Both calls return normally.
\<close>

theorem scenario_a_baseline_and_classification:
  "let s0 = fst (z_score_thresh_setter (init_detector nm 3 alsize) 2);
       s1 = fst (check_if_anomaly s0 10);
       s2 = fst (check_if_anomaly s1 10);
       s3 = fst (check_if_anomaly s2 10);
       r4 = check_if_anomaly s3 10; s4 = fst r4;
       r5 = check_if_anomaly s4 100; s5 = fst r5
   in
     z_score_thresh s0 = 2 \<and> s3 = scenario_baseline nm alsize 10 10 10 \<and>
     model_avg s0 = 0 \<and> model_std_dev s0 = 0 \<and> z_score s0 = 0 \<and>
     model_avg s1 = 0 \<and> model_std_dev s1 = 0 \<and> z_score s1 = 0 \<and>
     model_avg s2 = 0 \<and> model_std_dev s2 = 0 \<and> z_score s2 = 0 \<and>
     model_data s3 = [10, 10, 10] \<and> is_model_complete s3 \<and>
     model_avg s3 = 0 \<and> model_std_dev s3 = 0 \<and> z_score s3 = 0 \<and>
     snd r4 = None \<and> model_avg s4 = 10 \<and> model_std_dev s4 = 0.001 \<and>
     z_score s4 = 0 \<and> anomaly s4 = 0 \<and> model_data s4 = [10, 10, 10] \<and>
     snd r5 = None \<and> model_avg s5 = 10 \<and> model_std_dev s5 = 0.001 \<and>
     z_score s5 = 90000 \<and> anomaly s5 = 1 \<and> model_data s5 = [10, 10, 10]"
proof -
  have e1: "fst (check_if_anomaly \<lparr> model_data = [], model_size = 3, anomaly_list = [],
       anomaly_list_size = alsize, anomaly_ratio = 0, anomaly = 0, model_avg = 0,
       model_std_dev = 0, z_score = 0, z_score_thresh = 2, name = nm \<rparr> 10) =
     \<lparr> model_data = [10], model_size = 3, anomaly_list = [],
       anomaly_list_size = alsize, anomaly_ratio = 0, anomaly = 0, model_avg = 0,
       model_std_dev = 0, z_score = 0, z_score_thresh = 2, name = nm \<rparr>"
    by (simp add: check_if_anomaly_building)
  have e2: "fst (check_if_anomaly \<lparr> model_data = [10], model_size = 3, anomaly_list = [],
       anomaly_list_size = alsize, anomaly_ratio = 0, anomaly = 0, model_avg = 0,
       model_std_dev = 0, z_score = 0, z_score_thresh = 2, name = nm \<rparr> 10) =
     \<lparr> model_data = [10, 10], model_size = 3, anomaly_list = [],
       anomaly_list_size = alsize, anomaly_ratio = 0, anomaly = 0, model_avg = 0,
       model_std_dev = 0, z_score = 0, z_score_thresh = 2, name = nm \<rparr>"
    by (simp add: check_if_anomaly_building)
  have e3: "fst (check_if_anomaly \<lparr> model_data = [10, 10], model_size = 3, anomaly_list = [],
       anomaly_list_size = alsize, anomaly_ratio = 0, anomaly = 0, model_avg = 0,
       model_std_dev = 0, z_score = 0, z_score_thresh = 2, name = nm \<rparr> 10) =
     scenario_baseline nm alsize 10 10 10"
    by (simp add: check_if_anomaly_building scenario_baseline_eq)
  have b: "model_data (scenario_baseline nm alsize 10 10 10) = [10, 10, 10] \<and>
      is_model_complete (scenario_baseline nm alsize 10 10 10) \<and>
      model_avg (scenario_baseline nm alsize 10 10 10) = 0 \<and>
      model_std_dev (scenario_baseline nm alsize 10 10 10) = 0 \<and>
      z_score (scenario_baseline nm alsize 10 10 10) = 0"
    by (simp add: scenario_baseline_eq is_model_complete_def)
  show ?thesis
    by (simp add: Let_def scenario_a_start e1 e2 e3 b scenario_a_fourth scenario_a_fifth)
qed

text \<open>
  The claim as stated: right after the three readings the detector is complete, yet
  the stored mean is 0, not 10, and the stored standard deviation is 0, not 0.001.
\<close>

theorem scenario_a_counterexample:
  "is_model_complete (scenario_baseline ''s1'' 25 10 10 10) \<and>
   model_avg (scenario_baseline ''s1'' 25 10 10 10) = 0 \<and>
   model_avg (scenario_baseline ''s1'' 25 10 10 10) \<noteq> 10 \<and>
   model_std_dev (scenario_baseline ''s1'' 25 10 10 10) = 0 \<and>
   model_std_dev (scenario_baseline ''s1'' 25 10 10 10) \<noteq> 0.001"
  by (simp add: scenario_baseline_eq is_model_complete_def)

section \<open>Evaluation once the baseline is complete\<close>

text \<open>
  Claim C4, amended: for every detector whose model window holds exactly model size
  readings, with a model size of at least 2, and every value v for which none of the
  numeric operations of the evaluation raises (\<^verbatim>\<open>statistics.mean\<close>, \<^verbatim>\<open>round\<close>,
  \<^verbatim>\<open>statistics.stdev\<close>, the subtraction and the division, in Python's arithmetic),
  \<^verbatim>\<open>check_if_anomaly(v)\<close> returns normally and stores the mean as
  \<open>round(abs(mean(window)), 3)\<close>, the standard deviation as \<open>abs(stdev(window))\<close> with
  0.001 in its place when it equals 0, and the z-score as
  \<open>round((abs(v) - mean) / deviation, 3)\<close>. If the magnitude of the z-score is above
  the threshold, the flag is set to 1 and the window is unchanged; otherwise the flag is
  set to 0, the oldest reading leaves the window and v is appended. The window keeps
  its length. The theorem holds for every interpretation of the numeric operations,
  hence for Python's floats and ints.
\<close>

theorem check_if_anomaly_py_active:
  assumes "int (length (model_data s)) = model_size s" and "2 \<le> model_size s"
    and "num_mean N (model_data s) = Inr m"
    and "num_round N (num_abs N m) 3 = Inr avg"
    and "num_stdev N (model_data s) = Inr sd0"
    and "sd = (if num_eq_zero N (num_abs N sd0) then num_0_001 N else num_abs N sd0)"
    and "num_sub N (num_abs N v) avg = Inr d"
    and "num_truediv N d sd = Inr q"
    and "num_round N q 3 = Inr z"
  shows
    "check_if_anomaly_py N s v =
       (if num_gt N (num_abs N z) (z_score_thresh s)
        then (s\<lparr>model_avg := avg, model_std_dev := sd, z_score := z, anomaly := 1\<rparr>, None)
        else (s\<lparr>model_avg := avg, model_std_dev := sd, z_score := z,
                model_data := tl (model_data s) @ [v], anomaly := 0\<rparr>, None)) \<and>
     length (model_data (fst (check_if_anomaly_py N s v))) = length (model_data s)"
proof -
  from assms(1,2) have ne: "model_data s \<noteq> []" by auto
  have c: "is_model_complete s" using assms(1) by (simp add: is_model_complete_def)
  show ?thesis
  proof (cases "num_eq_zero N (num_abs N sd0)")
    case True
    with assms(6) have sd: "sd = num_0_001 N" by simp
    show ?thesis
      using ne c True assms(3,4,5,7,9) assms(8) [unfolded sd]
      by (simp add: check_if_anomaly_py_def check_if_anomaly_try_py_def except_log_def
          Let_def sd)
  next
    case False
    with assms(6) have sd: "sd = num_abs N sd0" by simp
    show ?thesis
      using ne c False assms(3,4,5,7,9) assms(8) [unfolded sd]
      by (simp add: check_if_anomaly_py_def check_if_anomaly_try_py_def except_log_def
          Let_def sd)
  qed
qed

theorem check_if_anomaly_py_active_witness:
  "int (length (model_data (scenario_baseline ''s1'' 2 0 2 4))) =
     model_size (scenario_baseline ''s1'' 2 0 2 4) \<and>
   2 \<le> model_size (scenario_baseline ''s1'' 2 0 2 4) \<and>
   num_mean exact_numbers (model_data (scenario_baseline ''s1'' 2 0 2 4)) = Inr 2 \<and>
   num_round exact_numbers (num_abs exact_numbers 2) 3 = Inr 2 \<and>
   num_stdev exact_numbers (model_data (scenario_baseline ''s1'' 2 0 2 4)) = Inr 2 \<and>
   num_sub exact_numbers (num_abs exact_numbers 3) 2 = Inr 1 \<and>
   num_truediv exact_numbers 1 2 = Inr (1 / 2) \<and>
   num_round exact_numbers (1 / 2) 3 = Inr (1 / 2) \<and>
   check_if_anomaly_py exact_numbers (scenario_baseline ''s1'' 2 0 2 4) 3 =
     ((scenario_baseline ''s1'' 2 0 2 4)
        \<lparr>model_avg := 2, model_std_dev := 2, z_score := 1 / 2,
         model_data := [2, 4, 3], anomaly := 0\<rparr>, None)"
proof -
  have sq: "sqrt 4 = 2" by (rule real_sqrt_four)
  have h1: "int (length (model_data (scenario_baseline ''s1'' 2 0 2 4))) =
     model_size (scenario_baseline ''s1'' 2 0 2 4)"
    by (simp add: scenario_baseline_eq)
  have h2: "2 \<le> model_size (scenario_baseline ''s1'' 2 0 2 4)"
    by (simp add: scenario_baseline_eq)
  have h3: "num_mean exact_numbers (model_data (scenario_baseline ''s1'' 2 0 2 4)) = Inr 2"
    by (simp add: scenario_baseline_eq exact_numbers_def statistics_mean_def)
  have h4: "num_round exact_numbers (num_abs exact_numbers 2) 3 = Inr 2"
    by (simp add: exact_numbers_def py_round_numeral)
  have h5: "num_stdev exact_numbers (model_data (scenario_baseline ''s1'' 2 0 2 4)) = Inr 2"
    by (simp add: scenario_baseline_eq exact_numbers_def statistics_stdev_def sq)
  have h6: "(2::real) = (if num_eq_zero exact_numbers (num_abs exact_numbers 2)
      then num_0_001 exact_numbers else num_abs exact_numbers 2)"
    by (simp add: exact_numbers_def)
  have h7: "num_sub exact_numbers (num_abs exact_numbers 3) 2 = Inr 1"
    by (simp add: exact_numbers_def)
  have h8: "num_truediv exact_numbers 1 2 = Inr (1 / 2)"
    by (simp add: exact_numbers_def)
  have h9: "num_round exact_numbers (1 / 2) 3 = Inr (1 / 2)"
    by (simp add: exact_numbers_def py_round_half)
  have g: "\<not> num_gt exact_numbers (num_abs exact_numbers (1 / 2))
      (z_score_thresh (scenario_baseline ''s1'' 2 0 2 4))"
    by (simp add: exact_numbers_def scenario_baseline_eq)
  have t: "tl (model_data (scenario_baseline ''s1'' 2 0 2 4)) @ [3] = [2, 4, 3]"
    by (simp add: scenario_baseline_eq)
  show ?thesis
    using check_if_anomaly_py_active [OF h1 h2 h3 h4 h5 h6 h7 h8 h9] h1 h2 h3 h4 h5 h7 h8 h9 g t
    by simp
qed

text \<open>
  The claim as stated, for every complete window: with a model size of 1 the window
  [5] is complete, \<^verbatim>\<open>stdev\<close> raises on it, and the call ends in NameError with no
  z-score computed, the flag untouched and the window still [5].
\<close>

theorem check_if_anomaly_active_counterexample:
  "is_model_complete (fst (check_if_anomaly (init_detector ''s1'' 1 25) 5)) \<and>
   check_if_anomaly (fst (check_if_anomaly (init_detector ''s1'' 1 25) 5)) 7 =
     ((init_detector ''s1'' 1 25)\<lparr>model_data := [5], model_avg := 5\<rparr>, Some NameError) \<and>
   z_score (fst (check_if_anomaly (fst (check_if_anomaly (init_detector ''s1'' 1 25) 5)) 7)) = 0 \<and>
   model_data (fst (check_if_anomaly (fst (check_if_anomaly (init_detector ''s1'' 1 25) 5)) 7))
     \<noteq> [7]"
  by (simp add: init_detector_def detector_defs helper_logger_error_def py_round_numeral)

section \<open>Feeding the same value repeatedly\<close>




section \<open>Scenario C: the ratio lags the anomaly window\<close>

text \<open>
  Claim C3, amended: for a detector with a complete model window, an anomaly list size
  of 2 and an empty anomaly list: after a first classification that sets the flag and
  its \<^verbatim>\<open>calculate_anomaly_ratio\<close> call the anomaly list is [1] and the ratio is
  unchanged; after a second classification that clears the flag and its
  \<^verbatim>\<open>calculate_anomaly_ratio\<close> call the anomaly list is [1, 0] and the ratio is still
  unchanged (0.0 on a detector that never had a full list). The ratio is recomputed
  by the call after that, which finds the list full: it drops the oldest flag, appends
  the current flag f and stores \<open>round(f / 2, 3)\<close>. The three calls return normally.
\<close>

theorem ratio_lag:
  assumes "is_model_complete s" and "anomaly_list_size s = 2" and "anomaly_list s = []"
    and "s1 = fst (check_if_anomaly s v1)" and "anomaly s1 = 1"
    and "s2 = fst (calculate_anomaly_ratio s1)"
    and "s3 = fst (check_if_anomaly s2 v2)" and "anomaly s3 = 0"
    and "s4 = fst (calculate_anomaly_ratio s3)"
    and "s5 = fst (check_if_anomaly s4 v3)"
    and "s6 = fst (calculate_anomaly_ratio s5)"
  shows
    "snd (calculate_anomaly_ratio s1) = None \<and> anomaly_list s2 = [1] \<and>
       anomaly_ratio s2 = anomaly_ratio s \<and>
     snd (calculate_anomaly_ratio s3) = None \<and> anomaly_list s4 = [1, 0] \<and>
       anomaly_ratio s4 = anomaly_ratio s \<and>
     snd (calculate_anomaly_ratio s5) = None \<and> anomaly_list s6 = [0, anomaly s5] \<and>
       anomaly_ratio s6 = py_round (of_int (anomaly s5) / 2) 3"
proof -
  have c1: "is_model_complete s1"
    unfolding assms(4) using assms(1) by (rule check_if_anomaly_complete)
  have f1: "anomaly_list s1 = [] \<and> anomaly_list_size s1 = 2 \<and> anomaly_ratio s1 = anomaly_ratio s"
    unfolding assms(4) using assms(2,3) by (simp add: check_if_anomaly_frame)
  have r1: "calculate_anomaly_ratio s1 = (s1\<lparr>anomaly_list := [1]\<rparr>, None)"
    using calculate_anomaly_ratio_append [OF c1] f1 assms(5) by simp
  then have s2: "s2 = s1\<lparr>anomaly_list := [1]\<rparr>" by (simp add: assms(6))
  have c2: "is_model_complete s2" using c1 by (simp add: s2 is_model_complete_def)
  have c3: "is_model_complete s3"
    unfolding assms(7) using c2 by (rule check_if_anomaly_complete)
  have f3: "anomaly_list s3 = [1] \<and> anomaly_list_size s3 = 2 \<and> anomaly_ratio s3 = anomaly_ratio s"
    unfolding assms(7) using f1 by (simp add: check_if_anomaly_frame s2)
  have r3: "calculate_anomaly_ratio s3 = (s3\<lparr>anomaly_list := [1, 0]\<rparr>, None)"
    using calculate_anomaly_ratio_append [OF c3] f3 assms(8) by simp
  then have s4: "s4 = s3\<lparr>anomaly_list := [1, 0]\<rparr>" by (simp add: assms(9))
  have c4: "is_model_complete s4" using c3 by (simp add: s4 is_model_complete_def)
  have c5: "is_model_complete s5"
    unfolding assms(10) using c4 by (rule check_if_anomaly_complete)
  have f5: "anomaly_list s5 = [1, 0] \<and> anomaly_list_size s5 = 2"
    unfolding assms(10) using f3 by (simp add: check_if_anomaly_frame s4)
  have r5: "calculate_anomaly_ratio s5 =
      (s5\<lparr>anomaly_list := [0, anomaly s5],
           anomaly_ratio := py_round (of_int (anomaly s5) / 2) 3\<rparr>, None)"
    using calculate_anomaly_ratio_slide [OF c5] f5 by simp
  from r1 s2 f1 r3 s4 f3 r5 show ?thesis
    by (simp add: assms(11))
qed

theorem ratio_lag_witness:
  "is_model_complete (scenario_baseline ''s1'' 2 10 10 10) \<and>
   anomaly_list_size (scenario_baseline ''s1'' 2 10 10 10) = 2 \<and>
   anomaly_list (scenario_baseline ''s1'' 2 10 10 10) = [] \<and>
   anomaly (fst (check_if_anomaly (scenario_baseline ''s1'' 2 10 10 10) 100)) = 1 \<and>
   anomaly (foldl do_call (scenario_baseline ''s1'' 2 10 10 10)
      [Evaluate 100, UpdateAnomalyRatio, Evaluate 10]) = 0 \<and>
   anomaly_list (foldl do_call (scenario_baseline ''s1'' 2 10 10 10)
      [Evaluate 100, UpdateAnomalyRatio, Evaluate 10, UpdateAnomalyRatio]) = [1, 0] \<and>
   anomaly_ratio (foldl do_call (scenario_baseline ''s1'' 2 10 10 10)
      [Evaluate 100, UpdateAnomalyRatio, Evaluate 10, UpdateAnomalyRatio]) = 0 \<and>
   anomaly_ratio (foldl do_call (scenario_baseline ''s1'' 2 10 10 10)
      [Evaluate 100, UpdateAnomalyRatio, Evaluate 10, UpdateAnomalyRatio,
       Evaluate 100, UpdateAnomalyRatio]) = 0.5"
proof -
  have h0: "anomaly_ratio (scenario_baseline ''s1'' 2 10 10 10) = 0"
    by (simp add: scenario_baseline_eq)
  have h1: "is_model_complete (scenario_baseline ''s1'' 2 10 10 10)"
    by (simp add: scenario_baseline_eq is_model_complete_def)
  have h2: "anomaly_list_size (scenario_baseline ''s1'' 2 10 10 10) = 2"
    by (simp add: scenario_baseline_eq)
  have h3: "anomaly_list (scenario_baseline ''s1'' 2 10 10 10) = []"
    by (simp add: scenario_baseline_eq)
  have h4: "anomaly (fst (check_if_anomaly (scenario_baseline ''s1'' 2 10 10 10) 100)) = 1"
    by (simp add: scenario_baseline_eq scenario_a_fifth)
  have h5: "anomaly (fst (check_if_anomaly (fst (calculate_anomaly_ratio
      (fst (check_if_anomaly (scenario_baseline ''s1'' 2 10 10 10) 100)))) 10)) = 0"
    by (simp add: scenario_baseline_eq detector_defs py_round_zero py_round_numeral
      calculate_anomaly_ratio_def calculate_anomaly_ratio_try_def)
  have h6: "anomaly (fst (check_if_anomaly (fst (calculate_anomaly_ratio
      (fst (check_if_anomaly (fst (calculate_anomaly_ratio
      (fst (check_if_anomaly (scenario_baseline ''s1'' 2 10 10 10) 100)))) 10)))) 100)) = 1"
    by (simp add: scenario_baseline_eq detector_defs py_round_zero py_round_numeral
      calculate_anomaly_ratio_def calculate_anomaly_ratio_try_def)
  show ?thesis
    using ratio_lag [OF h1 h2 h3 refl h4 refl refl h5 refl refl refl, of 100] h0 h1 h2 h3 h4 h5 h6
    by (simp add: py_round_half)
qed

text \<open>
  The claim as stated: on the window [10, 10, 10] with threshold 2.0, the value 100 is
  classified as an anomaly and the value 10 is not; after the two classifications and
  their updates the anomaly list is [1, 0] and the ratio is 0, not 0.5.
\<close>

theorem ratio_lag_counterexample:
  "anomaly_list (foldl do_call (scenario_baseline ''s1'' 2 10 10 10)
      [Evaluate 100, UpdateAnomalyRatio, Evaluate 10, UpdateAnomalyRatio]) = [1, 0] \<and>
   anomaly_ratio (foldl do_call (scenario_baseline ''s1'' 2 10 10 10)
      [Evaluate 100, UpdateAnomalyRatio, Evaluate 10, UpdateAnomalyRatio]) = 0 \<and>
   anomaly_ratio (foldl do_call (scenario_baseline ''s1'' 2 10 10 10)
      [Evaluate 100, UpdateAnomalyRatio, Evaluate 10, UpdateAnomalyRatio]) \<noteq> 0.5"
  by (simp add: scenario_baseline_eq detector_defs py_round_zero py_round_numeral
      calculate_anomaly_ratio_def calculate_anomaly_ratio_try_def)

section \<open>Routing in the two handlers\<close>

text \<open>
  Claim C6, amended: for a single-value event whose sensor name is not in the list of
  generic sensors, \<^verbatim>\<open>sensor_data\<close> invokes no detector; if
  \<^verbatim>\<open>float(round(SensorValue, 4))\<close> and the conversion of the time stamp both return,
  it writes exactly one point, of the measurement GenericSensor, with the three tags
  of the event, the converted time and the single field value, which is
  \<^verbatim>\<open>float(round(SensorValue, 4))\<close>; if one of the two raises, it writes nothing and
  the exception leaves the handler. For a vibration event whose sensor name is not in
  the list of vibration sensors, \<^verbatim>\<open>vibration_sensor_data\<close> writes no point, invokes
  no detector and returns normally. The theorem holds for every interpretation of
  the conversions.
\<close>

theorem routing_of_unconfigured_sensors:
  "(SensorName ev \<notin> set (generic_sensors_for_analytics a) \<longrightarrow>
      sensor_data rt Z a ev =
        (case rt_float rt (rt_round rt (SensorValue ev) 4) of
           Inl e \<Rightarrow> (a, [], Some e)
         | Inr v \<Rightarrow>
            (case rt_fromtimestamp rt (TimeStamp ev) of
               Inl e \<Rightarrow> (a, [], Some e)
             | Inr t \<Rightarrow>
                (a, [\<lparr> measurement = ''GenericSensor'',
                        point_tags = [(''line_name'', LineName ev),
                                      (''machine_name'', MachineName ev),
                                      (''sensor_name'', SensorName ev)],
                        point_fields = [(''value'', v)],
                        time_ms = t \<rparr>], None)))) \<and>
   (SensorName vev \<notin> set (vibration_sensors_for_analytics a) \<longrightarrow>
      vibration_sensor_data rt Z a vev = (a, [], None))"
  by (simp add: sensor_data_def vibration_sensor_data_def generic_sensor_point_def
      event_tags_def split: sum.splits)

lemma not_too_large: "\<bar>x\<bar> \<le> 2 ^ 64 \<Longrightarrow> \<not> float_too_large x"
proof -
  assume a: "\<bar>x\<bar> \<le> 2 ^ 64"
  have "(2::real) ^ 970 < 2 ^ 1023" by (rule power_strict_increasing) simp_all
  moreover have "(2::real) ^ 1024 = 2 * 2 ^ 1023" by simp
  moreover have "(2::real) ^ 64 \<le> 2 ^ 1023" by (rule power_increasing) simp_all
  ultimately have "(2::real) ^ 64 < 2 ^ 1024 - 2 ^ 970" by linarith
  with a show ?thesis by (simp add: float_too_large_def)
qed

lemma too_large_10_400: "float_too_large (10 ^ 400)"
proof -
  have "(2::real) ^ 1024 = 2 * (2 ^ 3) ^ 341" by (simp add: power_mult [symmetric])
  also have "\<dots> \<le> 2 * 10 ^ 341"
    by (intro mult_left_mono power_mono) simp_all
  also have "\<dots> \<le> 10 * 10 ^ 341" by simp
  also have "\<dots> = 10 ^ 342" by simp
  also have "\<dots> \<le> 10 ^ 400" by (rule power_increasing) simp_all
  finally have "(2::real) ^ 1024 \<le> 10 ^ 400" .
  moreover have "(0::real) \<le> 2 ^ 970" by simp
  ultimately have "(2::real) ^ 1024 - 2 ^ 970 \<le> \<bar>10 ^ 400\<bar>" by simp
  then show ?thesis by (simp only: float_too_large_def)
qed

lemma exact_float_small: "\<bar>x\<bar> \<le> 2 ^ 64 \<Longrightarrow> rt_float exact_runtime x = Inr x"
  by (simp add: exact_runtime_def not_too_large)

lemma py_round_43_2: "py_round (43 / 2) 4 = 43 / 2"
proof -
  have "round_half_even (43 / 2 * 10 ^ 4) = 215000"
    using round_half_even_of_int [of 215000] by simp
  then show ?thesis by (simp add: py_round_def)
qed

theorem routing_of_unconfigured_sensors_witness:
  "SensorName (example_sensor_event ''temp9'' (43 / 2))
     \<notin> set (generic_sensors_for_analytics example_app) \<and>
   SensorName (example_vibration_event ''vib9'' 3 4 0)
     \<notin> set (vibration_sensors_for_analytics example_app) \<and>
   sensor_data exact_runtime 2 example_app (example_sensor_event ''temp9'' (43 / 2)) =
     (example_app,
      [\<lparr> measurement = ''GenericSensor'',
         point_tags = [(''line_name'', ''line1''), (''machine_name'', ''machine1''),
                       (''sensor_name'', ''temp9'')],
         point_fields = [(''value'', 43 / 2)],
         time_ms = 1700000000000 \<rparr>], None) \<and>
   vibration_sensor_data exact_runtime 2 example_app (example_vibration_event ''vib9'' 3 4 0) =
     (example_app, [], None)"
proof -
  have h1: "SensorName (example_sensor_event ''temp9'' (43 / 2))
      \<notin> set (generic_sensors_for_analytics example_app)"
    by (simp add: example_app_def example_sensor_event_def)
  have h2: "SensorName (example_vibration_event ''vib9'' 3 4 0)
      \<notin> set (vibration_sensors_for_analytics example_app)"
    by (simp add: example_app_def example_vibration_event_def)
  have f: "rt_float exact_runtime (rt_round exact_runtime
      (SensorValue (example_sensor_event ''temp9'' (43 / 2))) 4) = Inr (43 / 2)"
  proof -
    have rr: "rt_round exact_runtime (SensorValue (example_sensor_event ''temp9'' (43 / 2))) 4
        = 43 / 2"
      by (simp add: exact_runtime_def example_sensor_event_def py_round_43_2)
    show ?thesis unfolding rr by (rule exact_float_small) simp
  qed
  have t: "rt_fromtimestamp exact_runtime
      (TimeStamp (example_sensor_event ''temp9'' (43 / 2))) = Inr 1700000000000"
    by (simp add: exact_runtime_def example_sensor_event_def)
  have e: "LineName (example_sensor_event ''temp9'' (43 / 2)) = ''line1'' \<and>
      MachineName (example_sensor_event ''temp9'' (43 / 2)) = ''machine1'' \<and>
      SensorName (example_sensor_event ''temp9'' (43 / 2)) = ''temp9''"
    by (simp add: example_sensor_event_def)
  show ?thesis
    using routing_of_unconfigured_sensors [where ev = "example_sensor_event ''temp9'' (43 / 2)"
        and a = example_app and vev = "example_vibration_event ''vib9'' 3 4 0" and Z = 2
        and rt = exact_runtime] h1 h2
    by (simp add: f t e)
qed

text \<open>
  The claim as stated, for every well-formed event of an unconfigured generic sensor:
  with the time stamp 253402300800000, the first millisecond of the year 10000, the
  conversion of the time stamp raises and nothing is written; with the value
  \<open>10\<^sup>4\<^sup>0\<^sup>0\<close>, an int too large for a float, \<^verbatim>\<open>float\<close> raises OverflowError and nothing is
  written.
\<close>

theorem routing_counterexample:
  "''temp9'' \<notin> set (generic_sensors_for_analytics example_app) \<and>
   sensor_data exact_runtime 2 example_app
     ((example_sensor_event ''temp9'' (43 / 2))\<lparr>TimeStamp := 253402300800000\<rparr>) =
     (example_app, [], Some DatetimeRangeError) \<and>
   sensor_data exact_runtime 2 example_app (example_sensor_event ''temp9'' (10 ^ 400)) =
     (example_app, [], Some OverflowError)"
proof -
  have l: "''temp9'' \<notin> set (generic_sensors_for_analytics example_app)"
    by (simp add: example_app_def)
  have f: "rt_float exact_runtime (43 / 2) = Inr (43 / 2)"
    by (rule exact_float_small) simp
  have r: "py_round (10 ^ 400) 4 = 10 ^ 400"
    using py_round_of_int [of "10 ^ 400" 4] by simp
  have o: "rt_float exact_runtime (10 ^ 400) = Inl OverflowError"
    using too_large_10_400 by (simp only: exact_runtime_def py_runtime.simps if_True)
  have a: "sensor_data exact_runtime 2 example_app
     ((example_sensor_event ''temp9'' (43 / 2))\<lparr>TimeStamp := 253402300800000\<rparr>) =
     (example_app, [], Some DatetimeRangeError)"
    using l f
    by (simp add: sensor_data_def generic_sensor_point_def example_sensor_event_def
        py_round_43_2 exact_runtime_def)
  have b: "sensor_data exact_runtime 2 example_app (example_sensor_event ''temp9'' (10 ^ 400)) =
     (example_app, [], Some OverflowError)"
  proof -
    have "rt_round exact_runtime (10 ^ 400) 4 = 10 ^ 400"
      using r by (simp only: exact_runtime_def py_runtime.simps)
    then have "generic_sensor_point exact_runtime (example_sensor_event ''temp9'' (10 ^ 400))
        = Inl OverflowError"
      using o by (simp only: generic_sensor_point_def example_sensor_event_def
          sensor_event.simps event.simps sum.case)
    then show ?thesis
      using l by (simp only: sensor_data_def Let_def example_sensor_event_def
          sensor_event.simps event.simps if_False sum.case)
  qed
  from l a b show ?thesis by (simp only: simp_thms)
qed

section \<open>The total of a vibration event\<close>

lemma sqrt_25: "sqrt 25 = 5"
  by (rule real_sqrt_unique) simp_all

lemma vib_total_rms_3_4_0: "vib_total_rms exact_runtime 3 4 0 = Inr 5"
proof -
  have a: "\<not> float_too_large 9" "\<not> float_too_large 16" "\<not> float_too_large 0"
    "\<not> float_too_large 25" "\<not> float_too_large 5"
    by (rule not_too_large, simp)+
  show ?thesis
    by (simp add: vib_total_rms_def exact_runtime_def a sqrt_25 py_round_numeral)
qed

text \<open>
  Claim C9, at its failing input: for the axes 3, 4, 0 the total is 5. With the
  threshold constant 2.0 the handler feeds exactly this value to the detector of the
  sensor, whose window becomes [5], and writes one point that carries it. With the
  threshold constant 0 the threshold setter raises NameError before
  \<^verbatim>\<open>check_if_anomaly\<close> is called: the detector is as before, no value has been fed to
  it and nothing is written.
\<close>

theorem vibration_event_zero_threshold_feeds_nothing:
  "SensorName (example_vibration_event ''vib1'' 3 4 0)
     \<in> set (vibration_sensors_for_analytics example_app) \<and>
   vib_total_rms exact_runtime 3 4 0 = Inr 5 \<and>
   vibration_sensor_data exact_runtime 2 example_app (example_vibration_event ''vib1'' 3 4 0) =
     (example_app\<lparr>vibration_analytics_objects :=
        (vibration_analytics_objects example_app)
          (''vib1'' \<mapsto> (init_detector ''vib1'' 25 25)\<lparr>z_score_thresh := 2, model_data := [5]\<rparr>)\<rparr>,
      [\<lparr> measurement = ''VibSensor'',
         point_tags = [(''line_name'', ''line1''), (''machine_name'', ''machine1''),
                       (''sensor_name'', ''vib1'')],
         point_fields =
           [(''vib_accel_rms_x'', 3), (''vib_accel_rms_y'', 4), (''vib_accel_rms_z'', 0),
            (''vib_accel_rms_total'', 5), (''anomaly'', 0), (''anomaly_ratio'', 0),
            (''model_avg'', 0), (''z_score'', 0), (''z_score_thresh'', 2)],
         time_ms = 1700000000000 \<rparr>], None) \<and>
   vibration_sensor_data exact_runtime 0 example_app (example_vibration_event ''vib1'' 3 4 0) =
     (example_app, [], Some NameError)"
proof -
  have h1: "SensorName (example_vibration_event ''vib1'' 3 4 0)
     \<in> set (vibration_sensors_for_analytics example_app)"
    by (simp add: example_app_def example_vibration_event_def)
  have o: "vibration_analytics_objects example_app ''vib1'' = Some (init_detector ''vib1'' 25 25)"
    by (simp add: example_app_def)
  have c: "check_if_anomaly ((init_detector ''vib1'' 25 25)\<lparr>z_score_thresh := 2\<rparr>) 5 =
      ((init_detector ''vib1'' 25 25)\<lparr>z_score_thresh := 2, model_data := [5]\<rparr>, None)"
    by (simp add: check_if_anomaly_building init_detector_def)
  have u: "calculate_anomaly_ratio
        ((init_detector ''vib1'' 25 25)\<lparr>z_score_thresh := 2, model_data := [5]\<rparr>) =
      ((init_detector ''vib1'' 25 25)\<lparr>z_score_thresh := 2, model_data := [5]\<rparr>, None)"
    by (simp add: calculate_anomaly_ratio_def calculate_anomaly_ratio_try_def
        is_model_complete_def except_log_def init_detector_def)
  have fl: "rt_float exact_runtime 0 = Inr 0" "rt_float exact_runtime 2 = Inr 2"
    by (rule exact_float_small, simp)+
  have af: "analytics_fields exact_runtime
        ((init_detector ''vib1'' 25 25)\<lparr>z_score_thresh := 2, model_data := [5]\<rparr>) =
      Inr [(''anomaly'', 0), (''anomaly_ratio'', 0), (''model_avg'', 0), (''z_score'', 0),
           (''z_score_thresh'', 2)]"
    by (simp add: analytics_fields_def round_float_4_def init_detector_def fl)
      (simp add: exact_runtime_def py_round_zero py_round_numeral)
  have p: "vib_sensor_point exact_runtime (example_vibration_event ''vib1'' 3 4 0) 5
        ((init_detector ''vib1'' 25 25)\<lparr>z_score_thresh := 2, model_data := [5]\<rparr>) =
      Inr \<lparr> measurement = ''VibSensor'',
         point_tags = [(''line_name'', ''line1''), (''machine_name'', ''machine1''),
                       (''sensor_name'', ''vib1'')],
         point_fields =
           [(''vib_accel_rms_x'', 3), (''vib_accel_rms_y'', 4), (''vib_accel_rms_z'', 0),
            (''vib_accel_rms_total'', 5), (''anomaly'', 0), (''anomaly_ratio'', 0),
            (''model_avg'', 0), (''z_score'', 0), (''z_score_thresh'', 2)],
         time_ms = 1700000000000 \<rparr>"
    by (simp add: vib_sensor_point_def af example_vibration_event_def)
      (simp add: exact_runtime_def event_tags_def py_round_zero py_round_numeral)
  have ev: "SensorName (example_vibration_event ''vib1'' 3 4 0) = ''vib1'' \<and>
      VibAccelTotRmsX (example_vibration_event ''vib1'' 3 4 0) = 3 \<and>
      VibAccelTotRmsY (example_vibration_event ''vib1'' 3 4 0) = 4 \<and>
      VibAccelTotRmsZ (example_vibration_event ''vib1'' 3 4 0) = 0"
    by (simp add: example_vibration_event_def)
  have v: "''vib1'' \<in> set (vibration_sensors_for_analytics example_app)"
    by (simp add: example_app_def)
  have z2: "vibration_sensor_data exact_runtime 2 example_app
      (example_vibration_event ''vib1'' 3 4 0) =
     (example_app\<lparr>vibration_analytics_objects :=
        (vibration_analytics_objects example_app)
          (''vib1'' \<mapsto> (init_detector ''vib1'' 25 25)\<lparr>z_score_thresh := 2, model_data := [5]\<rparr>)\<rparr>,
      [\<lparr> measurement = ''VibSensor'',
         point_tags = [(''line_name'', ''line1''), (''machine_name'', ''machine1''),
                       (''sensor_name'', ''vib1'')],
         point_fields =
           [(''vib_accel_rms_x'', 3), (''vib_accel_rms_y'', 4), (''vib_accel_rms_z'', 0),
            (''vib_accel_rms_total'', 5), (''anomaly'', 0), (''anomaly_ratio'', 0),
            (''model_avg'', 0), (''z_score'', 0), (''z_score_thresh'', 2)],
         time_ms = 1700000000000 \<rparr>], None)"
    by (simp add: vibration_sensor_data_def Let_def ev v vib_total_rms_3_4_0 o
        z_score_thresh_setter_nonzero c u p)
  have same: "example_app\<lparr>vibration_analytics_objects :=
        (vibration_analytics_objects example_app)(''vib1'' \<mapsto> init_detector ''vib1'' 25 25)\<rparr>
      = example_app"
    by (simp add: example_app_def)
  have z0: "vibration_sensor_data exact_runtime 0 example_app
      (example_vibration_event ''vib1'' 3 4 0) = (example_app, [], Some NameError)"
    by (simp add: vibration_sensor_data_def Let_def ev v vib_total_rms_3_4_0 o
        z_score_thresh_setter_def helper_logger_error_def same)
  from h1 vib_total_rms_3_4_0 z2 z0 show ?thesis by (simp only: simp_thms)
qed

end
